theory Spec2Isabelle
  imports Main
begin

section \<open>JavaScript values, errors and promises\<close>

text \<open>
  An \<^verbatim>\<open>Error\<close> object: its message and, for the errors a socket reports, its
  \<^verbatim>\<open>code\<close> property.
\<close>

record js_error =
  message :: string
  code :: "string option"

definition new_Error :: "string \<Rightarrow> js_error" where
  "new_Error msg = \<lparr>message = msg, code = None\<rparr>"

text \<open>
  The repository holds three generations of the module: \<^verbatim>\<open>src/index.js\<close> (a bind-based
  \<^verbatim>\<open>check\<close> only), \<^verbatim>\<open>src/unnamed/part_003\<close> (bind-based \<^verbatim>\<open>check\<close>, interval-driven
  \<^verbatim>\<open>waitUntilFree\<close> and \<^verbatim>\<open>waitUntilUsed\<close>) and \<^verbatim>\<open>src/unnamed/part_002\<close> (connect-based
  \<^verbatim>\<open>check\<close>, the host-aware wait operations and the no-host wrappers). Definitions taken
  from \<^verbatim>\<open>part_002\<close> keep the source's names; those of \<^verbatim>\<open>part_003\<close> carry the prefix
  \<open>p3_\<close> and those of \<^verbatim>\<open>src/index.js\<close> the prefix \<open>index_\<close>.

  An argument of an exported operation is any JavaScript value. Numbers that are integers
  are kept as \<open>int\<close>; a number that is not an integer (a fraction, NaN, an infinity) is
  kept by the text that is printed for it. Every value that is not one of these
  primitives (an object, an array, a function, a symbol) is a \<open>JObject\<close>, kept by what
  \<^verbatim>\<open>util.inspect\<close> does with it: \<^verbatim>\<open>util.inspect\<close> gives a text for it (the standard
  rendering, or what the value's own inspect hook returns), or the value's own inspect
  hook throws an error, which \<^verbatim>\<open>util.inspect\<close> lets through to its caller.
\<close>

datatype obj_inspect = Renders string | InspectThrows js_error

datatype jsval =
    JUndefined
  | JNull
  | JBool bool
  | JInt int
  | JNonInt string
  | JStr string
  | JObject obj_inspect

text \<open>
  The decimal text of a number, as number-to-string conversion gives it: the digits are
  produced from the least significant one, in front of those already there. (JavaScript
  prints integers of 1e21 and more in exponent form; no port, delay or message below is
  that large.)
\<close>

definition digit_char :: "nat \<Rightarrow> char" where
  "digit_char d = ''0123456789'' ! d"

fun decimal_acc :: "nat \<Rightarrow> string \<Rightarrow> string" where
  "decimal_acc n acc =
     (if n < 10 then digit_char n # acc
      else decimal_acc (n div 10) (digit_char (n mod 10) # acc))"

definition number_text :: "int \<Rightarrow> string" where
  "number_text i =
     (if 0 \<le> i then decimal_acc (nat i) [] else CHR ''-'' # decimal_acc (nat (- i)) [])"


fun inspect :: "jsval \<Rightarrow> string" where
  "inspect JUndefined = ''undefined''"
| "inspect JNull = ''null''"
| "inspect (JBool b) = (if b then ''true'' else ''false'')"
| "inspect (JInt i) = number_text i"
| "inspect (JNonInt s) = s"
| "inspect (JStr s) = [CHR 0x27] @ s @ [CHR 0x27]"
| "inspect (JObject (Renders s)) = s"
| "inspect (JObject (InspectThrows e)) = []"

text \<open>
  The string conversion of \<^verbatim>\<open>'...' + v\<close>, which only \<^verbatim>\<open>src/index.js\<close> applies to a raw
  argument: a string is appended as it is; for an object the text of \<^verbatim>\<open>util.inspect\<close>
  stands for the text of its own conversion.
\<close>

fun to_string :: "jsval \<Rightarrow> string" where
  "to_string (JStr s) = s"
| "to_string v = inspect v"

text \<open>
  Modelled from the spec: the predicates \<^verbatim>\<open>is.port\<close>, \<^verbatim>\<open>is.positiveInt\<close> and
  \<^verbatim>\<open>is.hostAddress\<close> belong to the library \<^verbatim>\<open>is2\<close>, which is not under \<^verbatim>\<open>src/\<close>. The spec
  has: "port must be an integer, 0 \<le> port \<le> 65535", "if not a positive integer,
  substitute the operation's default", "host: string, defaulting to the loopback address
  when absent or malformed". A host counts as an address here when it is a non-empty
  string; nothing below depends on more than that an accepted host is a string. The spec
  gives the three as tests that answer yes or no for any value: a value that is not a
  number is not a port and not a positive integer, a value that is not a string is not
  a host address.
\<close>

fun is_port :: "jsval \<Rightarrow> bool" where
  "is_port (JInt n) = (0 \<le> n \<and> n \<le> 65535)"
| "is_port _ = False"

fun is_positiveInt :: "jsval \<Rightarrow> bool" where
  "is_positiveInt (JInt n) = (0 < n)"
| "is_positiveInt _ = False"

fun is_hostAddress :: "jsval \<Rightarrow> bool" where
  "is_hostAddress (JStr s) = (s \<noteq> [])"
| "is_hostAddress _ = False"

text \<open>
  A deferred of the library \<^verbatim>\<open>q\<close>: the first \<^verbatim>\<open>resolve\<close> or \<^verbatim>\<open>reject\<close> settles it,
  later calls leave it as it is.
\<close>

datatype 'a promise = Pending | Fulfilled 'a | Rejected js_error

definition q_resolve :: "'a \<Rightarrow> 'a promise \<Rightarrow> 'a promise" where
  "q_resolve v p = (case p of Pending \<Rightarrow> Fulfilled v | _ \<Rightarrow> p)"

definition q_reject :: "js_error \<Rightarrow> 'a promise \<Rightarrow> 'a promise" where
  "q_reject e p = (case p of Pending \<Rightarrow> Rejected e | _ \<Rightarrow> p)"

section \<open>The connect-based probe: \<^verbatim>\<open>check\<close> of \<^verbatim>\<open>part_002\<close>\<close>

text \<open>
  A client socket: the events it still has a listener for, the address it connects to,
  and whether its handle is open. \<^verbatim>\<open>check\<close> never calls \<^verbatim>\<open>end\<close> or \<^verbatim>\<open>destroy\<close>;
  the platform closes a socket by itself only when the connection attempt fails.
\<close>

datatype sock_listener = EvConnect | EvError

record socket =
  listeners :: "sock_listener list"
  remote :: "jsval \<times> jsval"
  sock_open :: bool

record check_state =
  deferred :: "bool promise"
  inUse :: bool
  client :: "socket option"

definition loopback :: jsval where
  "loopback = JStr ''127.0.0.1''"

definition check :: "jsval \<Rightarrow> jsval \<Rightarrow> check_state" where
  "check port host =
     (if \<not> is_port port then
        \<lparr>deferred = q_reject (new_Error (''invalid port: '' @ inspect port)) Pending,
         inUse = True, client = None\<rparr>
      else
        let host' = (if \<not> is_hostAddress host then loopback else host) in
        \<lparr>deferred = Pending, inUse = True,
         client = Some \<lparr>listeners = [EvConnect, EvError], remote = (port, host'),
                        sock_open = True\<rparr>\<rparr>)"

definition check_cleanUp :: "check_state \<Rightarrow> check_state" where
  "check_cleanUp c =
     (case client c of
        None \<Rightarrow> c
      | Some k \<Rightarrow>
          c\<lparr>client := Some (k\<lparr>listeners := removeAll EvError (removeAll EvConnect (listeners k))\<rparr>)\<rparr>)"

definition onConnectCb :: "check_state \<Rightarrow> check_state" where
  "onConnectCb c = check_cleanUp (c\<lparr>deferred := q_resolve (inUse c) (deferred c)\<rparr>)"

definition onErrorCb :: "js_error \<Rightarrow> check_state \<Rightarrow> check_state" where
  "onErrorCb err c =
     (if code err \<noteq> Some ''ECONNREFUSED'' then
        check_cleanUp (c\<lparr>deferred := q_reject err (deferred c)\<rparr>)
      else
        let c1 = c\<lparr>inUse := False\<rparr> in
        check_cleanUp (c1\<lparr>deferred := q_resolve (inUse c1) (deferred c1)\<rparr>))"

text \<open>
  What the platform does with the socket of a probe: the connection is established
  (\<open>Connected\<close>) or fails with an error (\<open>Failed\<close>, after which the platform has closed
  the handle). A listener registered with \<^verbatim>\<open>once\<close> is taken off before it runs; an
  event without a listener runs nothing.
\<close>

datatype sock_event = Connected | Failed js_error

definition check_emit :: "sock_event \<Rightarrow> check_state \<Rightarrow> check_state" where
  "check_emit ev c =
     (case client c of
        None \<Rightarrow> c
      | Some k \<Rightarrow>
          (case ev of
             Connected \<Rightarrow>
               if EvConnect \<in> set (listeners k) then
                 onConnectCb (c\<lparr>client := Some (k\<lparr>listeners := remove1 EvConnect (listeners k)\<rparr>)\<rparr>)
               else c
           | Failed err \<Rightarrow>
               if EvError \<in> set (listeners k) then
                 onErrorCb err
                   (c\<lparr>client := Some (k\<lparr>listeners := remove1 EvError (listeners k),
                                          sock_open := False\<rparr>)\<rparr>)
               else c\<lparr>client := Some (k\<lparr>sock_open := False\<rparr>)\<rparr>))"

section \<open>The bind-based probes: \<^verbatim>\<open>check\<close> of \<^verbatim>\<open>src/index.js\<close> and of \<^verbatim>\<open>part_003\<close>\<close>

text \<open>
  A server socket: the events it has a listener for, the argument \<^verbatim>\<open>listen\<close> was called
  with, and where the handle stands. \<open>Binding\<close> is the time between the call of
  \<^verbatim>\<open>listen\<close> and its outcome, \<open>Closing\<close> the time between the call of \<^verbatim>\<open>close\<close> and
  the \<^verbatim>\<open>close\<close> event.
\<close>

datatype srv_listener = SvError | SvListening | SvClose

datatype srv_phase = Idle | Binding | Listening | Closing | Closed

record server_socket =
  srv_listeners :: "srv_listener list"
  listen_arg :: jsval
  phase :: srv_phase

record bind_state =
  bdeferred :: "bool promise"
  binUse :: bool
  server :: server_socket

text \<open>
  What the platform does with a server socket after \<^verbatim>\<open>listen\<close>: the bind fails with an
  error (the handle is closed again), or the socket is bound and listening; after
  \<^verbatim>\<open>close\<close>, the socket is closed and the \<^verbatim>\<open>close\<close> event is emitted. The three
  handlers are those the probe registered; \<open>keep_error\<close> tells a listener registered
  with \<^verbatim>\<open>on\<close> (it stays) from one registered with \<^verbatim>\<open>once\<close>.
\<close>

datatype srv_event = BindFailed js_error | Bound | CloseDone

definition srv_take :: "srv_listener \<Rightarrow> server_socket \<Rightarrow> server_socket" where
  "srv_take l k = k\<lparr>srv_listeners := remove1 l (srv_listeners k)\<rparr>"

definition srv_emit ::
  "bool \<Rightarrow> ('s \<Rightarrow> server_socket) \<Rightarrow> ((server_socket \<Rightarrow> server_socket) \<Rightarrow> 's \<Rightarrow> 's) \<Rightarrow>
   (js_error \<Rightarrow> 's \<Rightarrow> 's) \<Rightarrow> ('s \<Rightarrow> 's) \<Rightarrow> ('s \<Rightarrow> 's) \<Rightarrow> srv_event \<Rightarrow> 's \<Rightarrow> 's" where
  "srv_emit keep_error get upd on_error on_listening on_close ev c =
     (case ev of
        BindFailed err \<Rightarrow>
          if phase (get c) \<noteq> Binding then c
          else if SvError \<in> set (srv_listeners (get c)) then
            on_error err
              (upd (\<lambda>k. (if keep_error then k else srv_take SvError k)\<lparr>phase := Closed\<rparr>) c)
          else upd (\<lambda>k. k\<lparr>phase := Closed\<rparr>) c
      | Bound \<Rightarrow>
          if phase (get c) \<noteq> Binding then c
          else if SvListening \<in> set (srv_listeners (get c)) then
            on_listening (upd (\<lambda>k. (srv_take SvListening k)\<lparr>phase := Listening\<rparr>) c)
          else upd (\<lambda>k. k\<lparr>phase := Listening\<rparr>) c
      | CloseDone \<Rightarrow>
          if phase (get c) \<noteq> Closing then c
          else if SvClose \<in> set (srv_listeners (get c)) then
            on_close (upd (\<lambda>k. (srv_take SvClose k)\<lparr>phase := Closed\<rparr>) c)
          else upd (\<lambda>k. k\<lparr>phase := Closed\<rparr>) c)"

definition bind_upd :: "(server_socket \<Rightarrow> server_socket) \<Rightarrow> bind_state \<Rightarrow> bind_state" where
  "bind_upd f c = c\<lparr>server := f (server c)\<rparr>"

subsection \<open>\<^verbatim>\<open>src/index.js\<close>\<close>

fun gt_65535 :: "jsval \<Rightarrow> bool" where
  "gt_65535 (JInt n) = (n > 65535)"
| "gt_65535 _ = False"

text \<open>
  The guard of \<^verbatim>\<open>src/index.js\<close>, \<^verbatim>\<open>!is.positiveInt(port) || port > 65535\<close>, rejects the
  deferred and goes on: the server is created and \<^verbatim>\<open>listen\<close> is called whatever the
  port is.
\<close>

definition index_guard :: "jsval \<Rightarrow> bool" where
  "index_guard port = (\<not> is_positiveInt port \<or> gt_65535 port)"

definition index_check :: "jsval \<Rightarrow> bind_state" where
  "index_check port =
     (let deferred0 =
            (if index_guard port
             then q_reject (new_Error (''Invalid port: '' @ to_string port)) Pending
             else Pending)
      in \<lparr>bdeferred = deferred0, binUse = True,
          server = \<lparr>srv_listeners = [SvError, SvListening], listen_arg = port,
                    phase = Binding\<rparr>\<rparr>)"

definition index_onError :: "js_error \<Rightarrow> bind_state \<Rightarrow> bind_state" where
  "index_onError err c =
     (if code err = Some ''EADDRINUSE''
      then c\<lparr>bdeferred := q_resolve (binUse c) (bdeferred c)\<rparr>
      else c\<lparr>bdeferred := q_reject err (bdeferred c)\<rparr>)"

definition index_onListening :: "bind_state \<Rightarrow> bind_state" where
  "index_onListening c =
     c\<lparr>server := (server c)\<lparr>srv_listeners := srv_listeners (server c) @ [SvClose],
                              phase := Closing\<rparr>\<rparr>"

definition index_onClose :: "bind_state \<Rightarrow> bind_state" where
  "index_onClose c = c\<lparr>bdeferred := q_resolve (\<not> binUse c) (bdeferred c)\<rparr>"

definition index_emit :: "srv_event \<Rightarrow> bind_state \<Rightarrow> bind_state" where
  "index_emit = srv_emit False server bind_upd index_onError index_onListening index_onClose"

subsection \<open>\<^verbatim>\<open>part_003\<close>\<close>

definition p3_check :: "jsval \<Rightarrow> bind_state" where
  "p3_check port =
     (let deferred0 =
            (if \<not> is_port port
             then q_reject (new_Error (''Invalid port: '' @ inspect port)) Pending
             else Pending)
      in \<lparr>bdeferred = deferred0, binUse = True,
          server = \<lparr>srv_listeners = [SvError, SvListening], listen_arg = port,
                    phase = Binding\<rparr>\<rparr>)"

definition p3_cleanup :: "bind_state \<Rightarrow> bind_state" where
  "p3_cleanup c =
     c\<lparr>server := (server c)\<lparr>srv_listeners :=
        removeAll SvClose (removeAll SvListening (removeAll SvError (srv_listeners (server c))))\<rparr>\<rparr>"

definition p3_onError :: "js_error \<Rightarrow> bind_state \<Rightarrow> bind_state" where
  "p3_onError err c =
     p3_cleanup
       (if code err = Some ''EADDRINUSE''
        then c\<lparr>bdeferred := q_resolve (binUse c) (bdeferred c)\<rparr>
        else c\<lparr>bdeferred := q_reject err (bdeferred c)\<rparr>)"

definition p3_onListening :: "bind_state \<Rightarrow> bind_state" where
  "p3_onListening c =
     c\<lparr>server := (server c)\<lparr>srv_listeners := srv_listeners (server c) @ [SvClose],
                              phase := Closing\<rparr>\<rparr>"

definition p3_onClose :: "bind_state \<Rightarrow> bind_state" where
  "p3_onClose c = (let c1 = p3_cleanup c in c1\<lparr>bdeferred := q_resolve (\<not> binUse c1) (bdeferred c1)\<rparr>)"

definition p3_emit :: "srv_event \<Rightarrow> bind_state \<Rightarrow> bind_state" where
  "p3_emit = srv_emit False server bind_upd p3_onError p3_onListening p3_onClose"

section \<open>The polling sessions of \<^verbatim>\<open>part_002\<close>\<close>

text \<open>
  A session is one call of \<^verbatim>\<open>waitUntilFreeOnHost\<close> or \<^verbatim>\<open>waitUntilUsedOnHost\<close>. Its state
  holds the variables of the closure (\<open>wdeferred\<close> is the source's \<^verbatim>\<open>deferred\<close>, \<open>port_arg\<close>
  and \<open>host_arg\<close> its \<^verbatim>\<open>port\<close> and \<^verbatim>\<open>host\<close>) and what the platform holds for it: the timers
  that are armed and have not fired (identifier, callback, delay), the next timer
  identifier, and the calls of \<^verbatim>\<open>check\<close> whose result has not yet been delivered to the
  callbacks of \<^verbatim>\<open>doCheck\<close>. Two fields only record history: \<open>settle_calls\<close> counts the calls
  of \<^verbatim>\<open>deferred.resolve\<close> and \<^verbatim>\<open>deferred.reject\<close>, \<open>opened\<close> lists the sockets the session
  has opened. \<open>wants\<close> says which of the two functions the closure belongs to.
\<close>

datatype timer_cb = TimeoutFunc | RetryFunc

datatype wait_mode = UntilFree | UntilUsed

datatype io_action = SocketConnect jsval jsval | ServerListen jsval

record session =
  wdeferred :: "unit promise"
  timedout :: bool
  retryId :: "nat option"
  timeoutId :: "nat option"
  port_arg :: jsval
  host_arg :: jsval
  retryTimeMs :: jsval
  timeOutMs :: jsval
  wants :: wait_mode
  timers :: "(nat \<times> timer_cb \<times> jsval) list"
  next_timer :: nat
  inflight :: "check_state list"
  settle_calls :: nat
  opened :: "io_action list"

definition TIMEOUT :: int where
  "TIMEOUT = 2000"

definition RETRYTIME :: int where
  "RETRYTIME = 200"

definition new_session :: "wait_mode \<Rightarrow> jsval \<Rightarrow> jsval \<Rightarrow> jsval \<Rightarrow> jsval \<Rightarrow> session" where
  "new_session m port host retry tmo =
     \<lparr>wdeferred = Pending, timedout = False, retryId = None, timeoutId = None,
      port_arg = port, host_arg = host, retryTimeMs = retry, timeOutMs = tmo, wants = m,
      timers = [], next_timer = 1, inflight = [], settle_calls = 0, opened = []\<rparr>"

definition w_resolve :: "session \<Rightarrow> session" where
  "w_resolve s = s\<lparr>wdeferred := q_resolve () (wdeferred s), settle_calls := Suc (settle_calls s)\<rparr>"

definition w_reject :: "js_error \<Rightarrow> session \<Rightarrow> session" where
  "w_reject e s = s\<lparr>wdeferred := q_reject e (wdeferred s), settle_calls := Suc (settle_calls s)\<rparr>"

text \<open>
  \<^verbatim>\<open>setTimeout\<close> arms a timer under a fresh identifier and returns the identifier (a
  value that tests as true); \<^verbatim>\<open>clearTimeout\<close> disarms the timer of that identifier, if
  it is still armed.
\<close>

definition setTimeout :: "timer_cb \<Rightarrow> jsval \<Rightarrow> session \<Rightarrow> nat \<times> session" where
  "setTimeout cb ms s =
     (next_timer s,
      s\<lparr>timers := timers s @ [(next_timer s, cb, ms)], next_timer := Suc (next_timer s)\<rparr>)"

definition clearTimeout :: "nat \<Rightarrow> session \<Rightarrow> session" where
  "clearTimeout i s = s\<lparr>timers := filter (\<lambda>e. fst e \<noteq> i) (timers s)\<rparr>"

definition cleanUp :: "session \<Rightarrow> session" where
  "cleanUp s =
     (let s1 = (case timeoutId s of Some i \<Rightarrow> clearTimeout i s | None \<Rightarrow> s)
      in (case retryId s1 of Some i \<Rightarrow> clearTimeout i s1 | None \<Rightarrow> s1))"

definition timeoutFunc :: "session \<Rightarrow> session" where
  "timeoutFunc s = w_reject (new_Error ''timeout'') (cleanUp (s\<lparr>timedout := True\<rparr>))"

text \<open>What a call of \<^verbatim>\<open>check\<close> opens: the client socket of a probe that passed the port test.\<close>

definition check_io :: "check_state \<Rightarrow> io_action list" where
  "check_io c =
     (case client c of None \<Rightarrow> [] | Some k \<Rightarrow> [SocketConnect (fst (remote k)) (snd (remote k))])"

definition doCheck :: "session \<Rightarrow> session" where
  "doCheck s =
     (let c = check (port_arg s) (host_arg s)
      in s\<lparr>inflight := inflight s @ [c], opened := opened s @ check_io c\<rparr>)"

definition retry_later :: "session \<Rightarrow> session" where
  "retry_later s = (let (i, s') = setTimeout RetryFunc (retryTimeMs s) s in s'\<lparr>retryId := Some i\<rparr>)"

definition free_then :: "bool \<Rightarrow> session \<Rightarrow> session" where
  "free_then in_use s =
     (if timedout s then s
      else if in_use then retry_later s
      else cleanUp (w_resolve s))"

definition used_then :: "bool \<Rightarrow> session \<Rightarrow> session" where
  "used_then in_use s =
     (if timedout s then s
      else if in_use then cleanUp (w_resolve s)
      else retry_later s)"

definition check_failed :: "js_error \<Rightarrow> session \<Rightarrow> session" where
  "check_failed err s = (if timedout s then s else cleanUp (w_reject err s))"

definition arm_deadline :: "session \<Rightarrow> session" where
  "arm_deadline s = (let (i, s') = setTimeout TimeoutFunc (timeOutMs s) s in s'\<lparr>timeoutId := Some i\<rparr>)"

definition waitUntilFreeOnHost :: "jsval \<Rightarrow> jsval \<Rightarrow> jsval \<Rightarrow> jsval \<Rightarrow> session" where
  "waitUntilFreeOnHost port host retry tmo =
     (let s0 = new_session UntilFree port host retry tmo in
      if \<not> is_port port then w_reject (new_Error (''invalid port: '' @ inspect port)) s0
      else
        let s1 = (if \<not> is_hostAddress (host_arg s0) then s0\<lparr>host_arg := loopback\<rparr> else s0);
            s2 = (if \<not> is_positiveInt (timeOutMs s1) then s1\<lparr>timeOutMs := JInt RETRYTIME\<rparr> else s1);
            s3 = (if \<not> is_positiveInt (timeOutMs s2) then s2\<lparr>timeOutMs := JInt TIMEOUT\<rparr> else s2)
        in doCheck (arm_deadline s3))"

definition waitUntilFree :: "jsval \<Rightarrow> jsval \<Rightarrow> jsval \<Rightarrow> session" where
  "waitUntilFree port retry tmo = waitUntilFreeOnHost port (JStr ''127.0.0.1'') retry tmo"

definition waitUntilUsedOnHost :: "jsval \<Rightarrow> jsval \<Rightarrow> jsval \<Rightarrow> jsval \<Rightarrow> session" where
  "waitUntilUsedOnHost port host retry tmo =
     (let s0 = new_session UntilUsed port host retry tmo in
      if \<not> is_port port then w_reject (new_Error (''invalid port: '' @ inspect port)) s0
      else
        let s1 = (if \<not> is_hostAddress (host_arg s0) then s0\<lparr>host_arg := loopback\<rparr> else s0);
            s2 = (if \<not> is_positiveInt (retryTimeMs s1) then s1\<lparr>retryTimeMs := JInt RETRYTIME\<rparr> else s1);
            s3 = (if \<not> is_positiveInt (timeOutMs s2) then s2\<lparr>timeOutMs := JInt TIMEOUT\<rparr> else s2)
        in doCheck (arm_deadline s3))"

definition waitUntilUsed :: "jsval \<Rightarrow> jsval \<Rightarrow> jsval \<Rightarrow> session" where
  "waitUntilUsed port retry tmo = waitUntilUsedOnHost port (JStr ''127.0.0.1'') retry tmo"

text \<open>
  The events of a session. \<open>TimerFires i\<close>: the timer \<open>i\<close>, still armed, fires and
  its callback runs (the deadline's \<^verbatim>\<open>timeoutFunc\<close>, or the retry's call of \<^verbatim>\<open>doCheck\<close>).
  \<open>ProbeSettles k ev\<close>: the socket of the \<open>k\<close>-th call of \<^verbatim>\<open>check\<close> in flight meets
  \<open>ev\<close>, and the promise of that call is delivered to the callbacks \<^verbatim>\<open>doCheck\<close> gave to
  \<^verbatim>\<open>then\<close>. An event that names no armed timer or no call in flight changes nothing. The
  events of one session run one after the other, in any order.
\<close>

datatype event = TimerFires nat | ProbeSettles nat sock_event

definition fire :: "nat \<Rightarrow> session \<Rightarrow> session" where
  "fire i s =
     (case map_of (timers s) i of
        None \<Rightarrow> s
      | Some (cb, ms) \<Rightarrow>
          let s' = s\<lparr>timers := filter (\<lambda>e. fst e \<noteq> i) (timers s)\<rparr>
          in (case cb of TimeoutFunc \<Rightarrow> timeoutFunc s' | RetryFunc \<Rightarrow> doCheck s'))"

definition deliver :: "bool promise \<Rightarrow> session \<Rightarrow> session" where
  "deliver r s =
     (case r of
        Pending \<Rightarrow> s
      | Fulfilled in_use \<Rightarrow>
          (case wants s of UntilFree \<Rightarrow> free_then in_use s | UntilUsed \<Rightarrow> used_then in_use s)
      | Rejected err \<Rightarrow> check_failed err s)"

definition settle_probe :: "nat \<Rightarrow> sock_event \<Rightarrow> session \<Rightarrow> session" where
  "settle_probe k ev s =
     (if k < length (inflight s) then
        let r = deferred (check_emit ev (inflight s ! k))
        in if r = Pending then s
           else deliver r (s\<lparr>inflight := take k (inflight s) @ drop (Suc k) (inflight s)\<rparr>)
      else s)"

fun step :: "event \<Rightarrow> session \<Rightarrow> session" where
  "step (TimerFires i) s = fire i s"
| "step (ProbeSettles k ev) s = settle_probe k ev s"

fun run :: "event list \<Rightarrow> session \<Rightarrow> session" where
  "run [] s = s"
| "run (e # es) s = run es (step e s)"











section \<open>The interval-driven sessions of \<^verbatim>\<open>part_003\<close>\<close>

text \<open>
  \<^verbatim>\<open>waitUntilFree\<close> of \<^verbatim>\<open>part_003\<close> owns one server socket, one deadline timer, which only
  sets the flag \<^verbatim>\<open>done\<close>, and one interval, which looks at the flag and calls
  \<^verbatim>\<open>server.listen(port)\<close> at every tick. \<open>flistens\<close> counts those calls.
\<close>

record p3_free =
  fdeferred :: "unit promise"
  fdone :: bool
  ftimeOutMs :: jsval
  fretryTimeMs :: jsval
  fport :: jsval
  ftimeout_armed :: bool
  finterval_armed :: bool
  fserver :: "server_socket option"
  flistens :: nat

definition p3_waitUntilFree :: "jsval \<Rightarrow> jsval \<Rightarrow> jsval \<Rightarrow> p3_free" where
  "p3_waitUntilFree port retry tmo =
     (if \<not> is_port port then
        \<lparr>fdeferred = q_reject (new_Error (''waitUntilFree: invalid port: '' @ inspect port)) Pending,
         fdone = False, ftimeOutMs = tmo, fretryTimeMs = retry, fport = port,
         ftimeout_armed = False, finterval_armed = False, fserver = None, flistens = 0\<rparr>
      else
        let t1 = (if \<not> is_positiveInt tmo then JInt 100 else tmo);
            t2 = (if \<not> is_positiveInt t1 then JInt 300 else t1)
        in \<lparr>fdeferred = Pending, fdone = False, ftimeOutMs = t2, fretryTimeMs = retry,
             fport = port, ftimeout_armed = True, finterval_armed = True,
             fserver = Some \<lparr>srv_listeners = [SvError, SvListening], listen_arg = port,
                               phase = Idle\<rparr>,
             flistens = 0\<rparr>)"

definition p3_free_deadline :: "p3_free \<Rightarrow> p3_free" where
  "p3_free_deadline s = (if ftimeout_armed s then s\<lparr>fdone := True, ftimeout_armed := False\<rparr> else s)"

definition p3_free_upd :: "(server_socket \<Rightarrow> server_socket) \<Rightarrow> p3_free \<Rightarrow> p3_free" where
  "p3_free_upd f s = s\<lparr>fserver := map_option f (fserver s)\<rparr>"

definition p3_free_tick :: "p3_free \<Rightarrow> p3_free" where
  "p3_free_tick s =
     (if \<not> finterval_armed s then s
      else
        let s1 = (if fdone s then
                    s\<lparr>finterval_armed := False,
                      fdeferred := q_reject
                        (new_Error (''waitUntilFree: timeout after '' @ to_string (ftimeOutMs s) @ '' ms.''))
                        (fdeferred s)\<rparr>
                  else s)
        in p3_free_upd (\<lambda>k. k\<lparr>phase := Binding\<rparr>) (s1\<lparr>flistens := Suc (flistens s1)\<rparr>))"

definition p3_free_cleanup :: "p3_free \<Rightarrow> p3_free" where
  "p3_free_cleanup s =
     p3_free_upd (\<lambda>k. k\<lparr>srv_listeners := removeAll SvError (removeAll SvClose (srv_listeners k))\<rparr>)
       (s\<lparr>finterval_armed := False, ftimeout_armed := False\<rparr>)"

definition p3_free_onError :: "js_error \<Rightarrow> p3_free \<Rightarrow> p3_free" where
  "p3_free_onError err s =
     (if code err \<noteq> Some ''EADDRINUSE''
      then (let s1 = p3_free_cleanup s in s1\<lparr>fdeferred := q_reject err (fdeferred s1)\<rparr>)
      else s)"

definition p3_free_onListening :: "p3_free \<Rightarrow> p3_free" where
  "p3_free_onListening s =
     p3_free_upd (\<lambda>k. k\<lparr>srv_listeners := srv_listeners k @ [SvClose], phase := Closing\<rparr>)
       (s\<lparr>finterval_armed := False, ftimeout_armed := False\<rparr>)"

definition p3_free_onClose :: "p3_free \<Rightarrow> p3_free" where
  "p3_free_onClose s = s\<lparr>fdeferred := q_resolve () (fdeferred s)\<rparr>"

datatype p3_event = Deadline | Tick | Server srv_event

definition p3_free_server :: "p3_free \<Rightarrow> server_socket" where
  "p3_free_server s =
     (case fserver s of
        Some k \<Rightarrow> k
      | None \<Rightarrow> \<lparr>srv_listeners = [], listen_arg = fport s, phase = Idle\<rparr>)"

fun p3_free_step :: "p3_event \<Rightarrow> p3_free \<Rightarrow> p3_free" where
  "p3_free_step Deadline s = p3_free_deadline s"
| "p3_free_step Tick s = p3_free_tick s"
| "p3_free_step (Server ev) s =
     srv_emit True p3_free_server p3_free_upd p3_free_onError p3_free_onListening p3_free_onClose ev s"

text \<open>
  \<^verbatim>\<open>waitUntilUsed\<close> of \<^verbatim>\<open>part_003\<close>: the interval opens a new client socket at every tick;
  \<open>uclients\<close> lists the sockets opened so far, in the order of the ticks. The
  \<^verbatim>\<open>cleanUp\<close> of a tick takes the listeners off that tick's own socket.
\<close>

record p3_used =
  udeferred :: "unit promise"
  udone :: bool
  utimeOutMs :: jsval
  uretryTimeMs :: jsval
  uport :: jsval
  utimeout_armed :: bool
  uinterval_armed :: bool
  uclients :: "socket list"

definition p3_waitUntilUsed :: "jsval \<Rightarrow> jsval \<Rightarrow> jsval \<Rightarrow> p3_used" where
  "p3_waitUntilUsed port retry tmo =
     (if \<not> is_port port then
        \<lparr>udeferred = q_reject (new_Error (''waitUntilListening: invalid port: '' @ inspect port)) Pending,
         udone = False, utimeOutMs = tmo, uretryTimeMs = retry, uport = port,
         utimeout_armed = False, uinterval_armed = False, uclients = []\<rparr>
      else
        let t1 = (if \<not> is_positiveInt retry then JInt 100 else tmo);
            t2 = (if \<not> is_positiveInt t1 then JInt 300 else t1)
        in \<lparr>udeferred = Pending, udone = False, utimeOutMs = t2, uretryTimeMs = retry,
             uport = port, utimeout_armed = is_positiveInt t2, uinterval_armed = True,
             uclients = []\<rparr>)"

definition p3_used_deadline :: "p3_used \<Rightarrow> p3_used" where
  "p3_used_deadline s = (if utimeout_armed s then s\<lparr>udone := True, utimeout_armed := False\<rparr> else s)"

definition p3_used_timers_off :: "p3_used \<Rightarrow> p3_used" where
  "p3_used_timers_off s = s\<lparr>uinterval_armed := False, utimeout_armed := False\<rparr>"

definition p3_used_cleanUp :: "nat \<Rightarrow> p3_used \<Rightarrow> p3_used" where
  "p3_used_cleanUp k s =
     p3_used_timers_off
       (s\<lparr>uclients := (uclients s)
            [k := (uclients s ! k)\<lparr>listeners :=
               removeAll EvError (removeAll EvConnect (listeners (uclients s ! k)))\<rparr>]\<rparr>)"

definition p3_used_tick :: "p3_used \<Rightarrow> p3_used" where
  "p3_used_tick s =
     (if \<not> uinterval_armed s then s
      else
        let s1 = (if udone s then
                    (p3_used_timers_off s)\<lparr>udeferred :=
                       q_reject (new_Error ''waitUntilListening: timeout.'') (udeferred s)\<rparr>
                  else s)
        in s1\<lparr>uclients := uclients s1 @
             [\<lparr>listeners = [EvConnect, EvError], remote = (uport s1, JUndefined),
               sock_open = True\<rparr>]\<rparr>)"

definition p3_used_socket :: "nat \<Rightarrow> sock_event \<Rightarrow> p3_used \<Rightarrow> p3_used" where
  "p3_used_socket k ev s =
     (if \<not> k < length (uclients s) then s
      else
        let c = uclients s ! k in
        (case ev of
           Connected \<Rightarrow>
             if EvConnect \<in> set (listeners c) then
               p3_used_cleanUp k
                 (s\<lparr>uclients := (uclients s)[k := c\<lparr>listeners := remove1 EvConnect (listeners c)\<rparr>],
                    udeferred := q_resolve () (udeferred s)\<rparr>)
             else s
         | Failed err \<Rightarrow>
             if EvError \<in> set (listeners c) then
               let s1 = s\<lparr>uclients := (uclients s)
                          [k := c\<lparr>listeners := remove1 EvError (listeners c), sock_open := False\<rparr>]\<rparr>
               in if code err \<noteq> Some ''ECONNREFUSED''
                  then (let s2 = p3_used_cleanUp k s1 in s2\<lparr>udeferred := q_reject err (udeferred s2)\<rparr>)
                  else s1
             else s\<lparr>uclients := (uclients s)[k := c\<lparr>sock_open := False\<rparr>]\<rparr>))"

datatype p3_used_event = UDeadline | UTick | USocket nat sock_event

fun p3_used_step :: "p3_used_event \<Rightarrow> p3_used \<Rightarrow> p3_used" where
  "p3_used_step UDeadline s = p3_used_deadline s"
| "p3_used_step UTick s = p3_used_tick s"
| "p3_used_step (USocket k ev) s = p3_used_socket k ev s"

text \<open>A probe of \<^verbatim>\<open>waitUntilUsed\<close> is outstanding while its socket still waits for an event.\<close>

definition outstanding :: "socket \<Rightarrow> bool" where
  "outstanding k = (sock_open k \<and> EvConnect \<in> set (listeners k) \<and> EvError \<in> set (listeners k))"

section \<open>Invariants of the sessions of \<^verbatim>\<open>part_002\<close>\<close>

text \<open>
  A session that was started with a valid port is in one of four situations:
  a probe is in flight and the deadline is armed (\<open>probing\<close>); no probe is in flight, the
  deadline and the retry timer are armed (\<open>waiting\<close>); the deadline has fired
  (\<open>expired\<close>), a probe may still be in flight; or the session has settled otherwise and
  nothing is left (\<open>finished\<close>).
\<close>

definition probing :: "session \<Rightarrow> bool" where
  "probing s \<longleftrightarrow>
     wdeferred s = Pending \<and> settle_calls s = 0 \<and> \<not> timedout s \<and> is_port (port_arg s)
     \<and> inflight s = [check (port_arg s) (host_arg s)]
     \<and> (case timeoutId s of None \<Rightarrow> False
         | Some ti \<Rightarrow> ti < next_timer s \<and> timers s = [(ti, TimeoutFunc, timeOutMs s)])"

definition waiting :: "session \<Rightarrow> bool" where
  "waiting s \<longleftrightarrow>
     wdeferred s = Pending \<and> settle_calls s = 0 \<and> \<not> timedout s \<and> is_port (port_arg s)
     \<and> inflight s = []
     \<and> (case (timeoutId s, retryId s) of
           (Some ti, Some ri) \<Rightarrow> ti < ri \<and> ri < next_timer s
             \<and> timers s = [(ti, TimeoutFunc, timeOutMs s), (ri, RetryFunc, retryTimeMs s)]
         | _ \<Rightarrow> False)"

definition expired :: "session \<Rightarrow> bool" where
  "expired s \<longleftrightarrow>
     wdeferred s = Rejected (new_Error ''timeout'') \<and> settle_calls s = 1 \<and> timedout s
     \<and> is_port (port_arg s) \<and> timers s = []
     \<and> (inflight s = [] \<or> inflight s = [check (port_arg s) (host_arg s)])"

definition finished :: "session \<Rightarrow> bool" where
  "finished s \<longleftrightarrow>
     wdeferred s \<noteq> Pending \<and> settle_calls s = 1 \<and> \<not> timedout s \<and> timers s = []
     \<and> inflight s = []"

definition session_inv :: "session \<Rightarrow> bool" where
  "session_inv s \<longleftrightarrow> probing s \<or> waiting s \<or> expired s \<or> finished s"

section \<open>Properties of the connect-based probe\<close>

lemma check_valid:
  "is_port port \<Longrightarrow>
   check port host =
     \<lparr>deferred = Pending, inUse = True,
      client = Some \<lparr>listeners = [EvConnect, EvError],
                     remote = (port, if \<not> is_hostAddress host then loopback else host),
                     sock_open = True\<rparr>\<rparr>"
  by (simp add: check_def)

lemma check_emit_Connected:
  "is_port port \<Longrightarrow> deferred (check_emit Connected (check port host)) = Fulfilled True"
  by (simp add: check_valid check_emit_def onConnectCb_def check_cleanUp_def q_resolve_def)

lemma check_emit_refused:
  "is_port port \<Longrightarrow> code err = Some ''ECONNREFUSED'' \<Longrightarrow>
   deferred (check_emit (Failed err) (check port host)) = Fulfilled False"
  by (simp add: check_valid check_emit_def onErrorCb_def check_cleanUp_def q_resolve_def)

lemma check_emit_other:
  "is_port port \<Longrightarrow> code err \<noteq> Some ''ECONNREFUSED'' \<Longrightarrow>
   deferred (check_emit (Failed err) (check port host)) = Rejected err"
  by (simp add: check_valid check_emit_def onErrorCb_def check_cleanUp_def q_reject_def)

text \<open>
  C4. For a valid port the connect-based probe reports in-use (\<open>True\<close>) when the
  connection is established, free (\<open>False\<close>) when the connection fails with the
  connection-refused code, and otherwise is rejected with the very error the socket
  reported.
\<close>

theorem check_outcomes:
  "is_port port \<Longrightarrow>
   deferred (check_emit Connected (check port host)) = Fulfilled True
   \<and> (code err = Some ''ECONNREFUSED'' \<longrightarrow>
        deferred (check_emit (Failed err) (check port host)) = Fulfilled False)
   \<and> (code err \<noteq> Some ''ECONNREFUSED'' \<longrightarrow>
        deferred (check_emit (Failed err) (check port host)) = Rejected err)"
  by (simp add: check_emit_Connected check_emit_refused check_emit_other)

theorem check_outcomes_witness:
  "is_port (JInt 44202)
   \<and> deferred (check_emit Connected (check (JInt 44202) JUndefined)) = Fulfilled True
   \<and> deferred (check_emit (Failed \<lparr>message = ''connect ECONNREFUSED'', code = Some ''ECONNREFUSED''\<rparr>)
        (check (JInt 44202) JUndefined)) = Fulfilled False
   \<and> deferred (check_emit (Failed \<lparr>message = ''getaddrinfo ENOTFOUND'', code = Some ''ENOTFOUND''\<rparr>)
        (check (JInt 44202) JUndefined))
     = Rejected \<lparr>message = ''getaddrinfo ENOTFOUND'', code = Some ''ENOTFOUND''\<rparr>"
proof -
  have p: "is_port (JInt 44202)" by simp
  from check_outcomes [OF p, of JUndefined
         "\<lparr>message = ''connect ECONNREFUSED'', code = Some ''ECONNREFUSED''\<rparr>"]
       check_outcomes [OF p, of JUndefined
         "\<lparr>message = ''getaddrinfo ENOTFOUND'', code = Some ''ENOTFOUND''\<rparr>"]
  show ?thesis using p by simp
qed

section \<open>Properties of the sessions of \<^verbatim>\<open>part_002\<close>\<close>

subsection \<open>What each operation of the closure does to the state\<close>

lemma fresh_settles:
  "is_port p \<Longrightarrow> deferred (check_emit ev (check p h)) =
     (case ev of Connected \<Rightarrow> Fulfilled True
      | Failed err \<Rightarrow> if code err = Some ''ECONNREFUSED'' then Fulfilled False else Rejected err)"
  by (cases ev) (simp_all add: check_emit_Connected check_emit_refused check_emit_other)

lemma cleanUp_simps [simp]:
  "wdeferred (cleanUp s) = wdeferred s"
  "timedout (cleanUp s) = timedout s"
  "retryId (cleanUp s) = retryId s"
  "timeoutId (cleanUp s) = timeoutId s"
  "port_arg (cleanUp s) = port_arg s"
  "host_arg (cleanUp s) = host_arg s"
  "retryTimeMs (cleanUp s) = retryTimeMs s"
  "timeOutMs (cleanUp s) = timeOutMs s"
  "wants (cleanUp s) = wants s"
  "next_timer (cleanUp s) = next_timer s"
  "inflight (cleanUp s) = inflight s"
  "settle_calls (cleanUp s) = settle_calls s"
  "opened (cleanUp s) = opened s"
  "timers (cleanUp s) =
     filter (\<lambda>e. Some (fst e) \<noteq> timeoutId s \<and> Some (fst e) \<noteq> retryId s) (timers s)"
  by (simp_all add: cleanUp_def clearTimeout_def Let_def split: option.splits)

lemma w_reject_simps [simp]:
  "wdeferred (w_reject e s) = q_reject e (wdeferred s)"
  "settle_calls (w_reject e s) = Suc (settle_calls s)"
  "timedout (w_reject e s) = timedout s"
  "retryId (w_reject e s) = retryId s"
  "timeoutId (w_reject e s) = timeoutId s"
  "port_arg (w_reject e s) = port_arg s"
  "host_arg (w_reject e s) = host_arg s"
  "retryTimeMs (w_reject e s) = retryTimeMs s"
  "timeOutMs (w_reject e s) = timeOutMs s"
  "wants (w_reject e s) = wants s"
  "next_timer (w_reject e s) = next_timer s"
  "inflight (w_reject e s) = inflight s"
  "opened (w_reject e s) = opened s"
  "timers (w_reject e s) = timers s"
  by (simp_all add: w_reject_def)

lemma w_resolve_simps [simp]:
  "wdeferred (w_resolve s) = q_resolve () (wdeferred s)"
  "settle_calls (w_resolve s) = Suc (settle_calls s)"
  "timedout (w_resolve s) = timedout s"
  "retryId (w_resolve s) = retryId s"
  "timeoutId (w_resolve s) = timeoutId s"
  "port_arg (w_resolve s) = port_arg s"
  "host_arg (w_resolve s) = host_arg s"
  "retryTimeMs (w_resolve s) = retryTimeMs s"
  "timeOutMs (w_resolve s) = timeOutMs s"
  "wants (w_resolve s) = wants s"
  "next_timer (w_resolve s) = next_timer s"
  "inflight (w_resolve s) = inflight s"
  "opened (w_resolve s) = opened s"
  "timers (w_resolve s) = timers s"
  by (simp_all add: w_resolve_def)

lemma doCheck_simps [simp]:
  "wdeferred (doCheck s) = wdeferred s"
  "settle_calls (doCheck s) = settle_calls s"
  "timedout (doCheck s) = timedout s"
  "retryId (doCheck s) = retryId s"
  "timeoutId (doCheck s) = timeoutId s"
  "port_arg (doCheck s) = port_arg s"
  "host_arg (doCheck s) = host_arg s"
  "retryTimeMs (doCheck s) = retryTimeMs s"
  "timeOutMs (doCheck s) = timeOutMs s"
  "wants (doCheck s) = wants s"
  "next_timer (doCheck s) = next_timer s"
  "inflight (doCheck s) = inflight s @ [check (port_arg s) (host_arg s)]"
  "opened (doCheck s) = opened s @ check_io (check (port_arg s) (host_arg s))"
  "timers (doCheck s) = timers s"
  by (simp_all add: doCheck_def Let_def)

lemma retry_later_simps [simp]:
  "wdeferred (retry_later s) = wdeferred s"
  "settle_calls (retry_later s) = settle_calls s"
  "timedout (retry_later s) = timedout s"
  "retryId (retry_later s) = Some (next_timer s)"
  "timeoutId (retry_later s) = timeoutId s"
  "port_arg (retry_later s) = port_arg s"
  "host_arg (retry_later s) = host_arg s"
  "retryTimeMs (retry_later s) = retryTimeMs s"
  "timeOutMs (retry_later s) = timeOutMs s"
  "wants (retry_later s) = wants s"
  "next_timer (retry_later s) = Suc (next_timer s)"
  "inflight (retry_later s) = inflight s"
  "opened (retry_later s) = opened s"
  "timers (retry_later s) = timers s @ [(next_timer s, RetryFunc, retryTimeMs s)]"
  by (simp_all add: retry_later_def setTimeout_def)

lemma timeoutFunc_simps [simp]:
  "wdeferred (timeoutFunc s) = q_reject (new_Error ''timeout'') (wdeferred s)"
  "settle_calls (timeoutFunc s) = Suc (settle_calls s)"
  "timedout (timeoutFunc s) = True"
  "retryId (timeoutFunc s) = retryId s"
  "timeoutId (timeoutFunc s) = timeoutId s"
  "port_arg (timeoutFunc s) = port_arg s"
  "host_arg (timeoutFunc s) = host_arg s"
  "retryTimeMs (timeoutFunc s) = retryTimeMs s"
  "timeOutMs (timeoutFunc s) = timeOutMs s"
  "wants (timeoutFunc s) = wants s"
  "next_timer (timeoutFunc s) = next_timer s"
  "inflight (timeoutFunc s) = inflight s"
  "opened (timeoutFunc s) = opened s"
  "timers (timeoutFunc s) =
     filter (\<lambda>e. Some (fst e) \<noteq> timeoutId s \<and> Some (fst e) \<noteq> retryId s) (timers s)"
  by (simp_all add: timeoutFunc_def)

lemma probing_fire: 
  assumes "probing s" shows "expired (fire i s) \<or> fire i s = s"
proof -
  from assms obtain ti where t: "timeoutId s = Some ti" "timers s = [(ti, TimeoutFunc, timeOutMs s)]"
    by (auto simp: probing_def split: option.splits)
  show ?thesis
  proof (cases "i = ti")
    case True
    with t assms have "expired (fire i s)"
      by (simp add: probing_def expired_def fire_def q_reject_def)
    then show ?thesis ..
  next
    case False
    with t have "fire i s = s" by (simp add: fire_def)
    then show ?thesis ..
  qed
qed

lemma probing_settle:
  assumes "probing s"
  shows "waiting (settle_probe k ev s) \<or> finished (settle_probe k ev s) \<or> settle_probe k ev s = s"
proof (cases "k = 0")
  case False
  with assms have "settle_probe k ev s = s" by (simp add: settle_probe_def probing_def)
  then show ?thesis by simp
next
  case True
  from assms obtain ti where t: "timeoutId s = Some ti" "timers s = [(ti, TimeoutFunc, timeOutMs s)]"
     "ti < next_timer s"
    by (auto simp: probing_def split: option.splits)
  from assms have p: "is_port (port_arg s)" "inflight s = [check (port_arg s) (host_arg s)]"
    "wdeferred s = Pending" "settle_calls s = 0" "\<not> timedout s"
    by (simp_all add: probing_def)
  show ?thesis
  proof (cases ev)
    case Connected
    with True t p show ?thesis
      by (cases "wants s")
         (simp_all add: settle_probe_def fresh_settles deliver_def free_then_def used_then_def
            waiting_def finished_def q_resolve_def)
  next
    case (Failed err)
    with True t p show ?thesis
      by (cases "wants s")
         (simp_all add: settle_probe_def fresh_settles deliver_def free_then_def used_then_def
            check_failed_def waiting_def finished_def q_resolve_def q_reject_def)
  qed
qed

lemma waiting_fire:
  assumes "waiting s"
  shows "expired (fire i s) \<or> probing (fire i s) \<or> fire i s = s"
proof -
  from assms obtain ti ri where t: "timeoutId s = Some ti" "retryId s = Some ri" "ti < ri"
    "ri < next_timer s"
    "timers s = [(ti, TimeoutFunc, timeOutMs s), (ri, RetryFunc, retryTimeMs s)]"
    by (auto simp: waiting_def split: option.splits)
  from assms have p: "is_port (port_arg s)" "inflight s = []"
    "wdeferred s = Pending" "settle_calls s = 0" "\<not> timedout s"
    by (simp_all add: waiting_def)
  consider "i = ti" | "i = ri" | "i \<noteq> ti" "i \<noteq> ri" by blast
  then show ?thesis
  proof cases
    case 1
    with t p have "expired (fire i s)"
      by (simp add: expired_def fire_def q_reject_def)
    then show ?thesis by simp
  next
    case 2
    with t p have "probing (fire i s)"
      by (simp add: probing_def fire_def)
    then show ?thesis by simp
  next
    case 3
    with t have "fire i s = s" by (simp add: fire_def)
    then show ?thesis by simp
  qed
qed

lemma waiting_settle: "waiting s \<Longrightarrow> settle_probe k ev s = s"
  by (simp add: waiting_def settle_probe_def)

lemma expired_fire: "expired s \<Longrightarrow> fire i s = s"
  by (simp add: expired_def fire_def)

lemma expired_settle:
  assumes "expired s"
  shows "expired (settle_probe k ev s)"
proof (cases "k < length (inflight s)")
  case False
  with assms show ?thesis by (simp add: settle_probe_def)
next
  case True
  with assms have p: "inflight s = [check (port_arg s) (host_arg s)]" "k = 0"
    by (auto simp: expired_def)
  from assms have q: "timedout s" "is_port (port_arg s)" "timers s = []" "settle_calls s = 1"
    "wdeferred s = Rejected (new_Error ''timeout'')"
    by (simp_all add: expired_def)
  from p q show ?thesis
    by (cases ev)
       (simp_all add: settle_probe_def fresh_settles deliver_def free_then_def used_then_def
          check_failed_def expired_def Let_def split: wait_mode.splits)
qed

lemma finished_step: "finished s \<Longrightarrow> step e s = s"
  by (cases e) (simp_all add: finished_def fire_def settle_probe_def)

lemma session_inv_step:
  assumes "session_inv s"
  shows "session_inv (step e s)"
proof -
  from assms consider "probing s" | "waiting s" | "expired s" | "finished s"
    unfolding session_inv_def by blast
  then show ?thesis
  proof cases
    case 1
    show ?thesis
    proof (cases e)
      case (TimerFires i)
      with probing_fire [OF 1, of i] 1 show ?thesis by (auto simp: session_inv_def)
    next
      case (ProbeSettles k ev)
      with probing_settle [OF 1, of k ev] 1 show ?thesis by (auto simp: session_inv_def)
    qed
  next
    case 2
    show ?thesis
    proof (cases e)
      case (TimerFires i)
      with waiting_fire [OF 2, of i] 2 show ?thesis by (auto simp: session_inv_def)
    next
      case (ProbeSettles k ev)
      with waiting_settle [OF 2, of k ev] 2 show ?thesis by (simp add: session_inv_def)
    qed
  next
    case 3
    show ?thesis
    proof (cases e)
      case (TimerFires i)
      with expired_fire [OF 3, of i] 3 show ?thesis by (simp add: session_inv_def)
    next
      case (ProbeSettles k ev)
      with expired_settle [OF 3, of k ev] show ?thesis by (simp add: session_inv_def)
    qed
  next
    case 4
    with finished_step [OF 4, of e] show ?thesis by (simp add: session_inv_def)
  qed
qed

lemma session_inv_run: "session_inv s \<Longrightarrow> session_inv (run es s)"
  by (induction es arbitrary: s) (simp_all add: session_inv_step)


lemma start_free_valid:
  "is_port p \<Longrightarrow> probing (waitUntilFreeOnHost p h r t)"
  by (simp add: waitUntilFreeOnHost_def probing_def new_session_def arm_deadline_def setTimeout_def Let_def)

lemma start_used_valid:
  "is_port p \<Longrightarrow> probing (waitUntilUsedOnHost p h r t)"
  by (simp add: waitUntilUsedOnHost_def probing_def new_session_def arm_deadline_def setTimeout_def Let_def)

lemma start_free_invalid:
  "\<not> is_port p \<Longrightarrow> finished (waitUntilFreeOnHost p h r t)"
  by (simp add: waitUntilFreeOnHost_def finished_def new_session_def q_reject_def)

lemma start_used_invalid:
  "\<not> is_port p \<Longrightarrow> finished (waitUntilUsedOnHost p h r t)"
  by (simp add: waitUntilUsedOnHost_def finished_def new_session_def q_reject_def)


lemma start_wrappers:
  "waitUntilFree p r t = waitUntilFreeOnHost p (JStr ''127.0.0.1'') r t"
  "waitUntilUsed p r t = waitUntilUsedOnHost p (JStr ''127.0.0.1'') r t"
  by (simp_all add: waitUntilFree_def waitUntilUsed_def)

lemma start_inv:
  assumes "s0 = waitUntilFreeOnHost p h r t \<or> s0 = waitUntilUsedOnHost p h r t
           \<or> s0 = waitUntilFree p r t \<or> s0 = waitUntilUsed p r t"
  shows "session_inv s0"
proof (cases "is_port p")
  case True
  with assms have "probing s0"
    by (auto simp: start_wrappers start_free_valid start_used_valid)
  then show ?thesis by (simp add: session_inv_def)
next
  case False
  with assms have "finished s0"
    by (auto simp: start_wrappers start_free_invalid start_used_invalid)
  then show ?thesis by (simp add: session_inv_def)
qed








lemmas run_defs = waitUntilFreeOnHost_def waitUntilUsedOnHost_def waitUntilFree_def
  waitUntilUsed_def new_session_def arm_deadline_def setTimeout_def doCheck_def check_def
  check_io_def loopback_def fire_def settle_probe_def deliver_def free_then_def used_then_def
  check_failed_def retry_later_def cleanUp_def clearTimeout_def timeoutFunc_def w_resolve_def
  w_reject_def q_resolve_def q_reject_def check_emit_def onConnectCb_def onErrorCb_def
  check_cleanUp_def Let_def

subsection \<open>Settlement\<close>




section \<open>What the probes leave behind, and what the guards let through\<close>

text \<open>
  C7, at the input \<^verbatim>\<open>check(44202, '127.0.0.1')\<close> with a listener on the port: when the
  connection is established the promise is fulfilled with \<open>True\<close> and both listeners are
  taken off, but the socket the probe opened is still open: nothing in \<^verbatim>\<open>check\<close> of
  \<^verbatim>\<open>part_002\<close> ends or destroys it.
\<close>

theorem check_keeps_socket_open:
  "deferred (check_emit Connected (check (JInt 44202) (JStr ''127.0.0.1''))) = Fulfilled True
   \<and> client (check_emit Connected (check (JInt 44202) (JStr ''127.0.0.1'')))
       = Some \<lparr>listeners = [], remote = (JInt 44202, JStr ''127.0.0.1''), sock_open = True\<rparr>"
  by (simp add: check_def check_emit_def onConnectCb_def check_cleanUp_def q_resolve_def)

lemma number_text_65536: "number_text 65536 = ''65536''"
  by (simp add: number_text_def digit_char_def)

text \<open>
  C5, at the input \<^verbatim>\<open>check(65536)\<close> of \<^verbatim>\<open>src/index.js\<close>: the port is not valid and the
  promise is rejected with a message that carries it, yet the function does not return
  there: the server socket exists and \<^verbatim>\<open>listen(65536)\<close> has been called on it.
\<close>

theorem index_check_listens_on_invalid_port:
  "\<not> is_port (JInt 65536)
   \<and> bdeferred (index_check (JInt 65536)) = Rejected (new_Error ''Invalid port: 65536'')
   \<and> server (index_check (JInt 65536))
       = \<lparr>srv_listeners = [SvError, SvListening], listen_arg = JInt 65536, phase = Binding\<rparr>"
  by (simp add: index_check_def index_guard_def q_reject_def number_text_65536)

text \<open>
  C3, at the input \<^verbatim>\<open>waitUntilFreeOnHost(44205, '127.0.0.1')\<close> with no retry interval and
  no timeout: the timeout becomes the retry default (\<open>RETRYTIME\<close>, 200) and the deadline
  timer is armed with it, while the retry interval stays undefined. And at
  \<^verbatim>\<open>waitUntilUsed(44204, undefined, 4000)\<close> of \<^verbatim>\<open>part_003\<close>: the missing retry interval
  overwrites the timeout that was given with 100 and stays undefined itself.
\<close>

theorem free_wait_defaults_swapped:
  "timeOutMs (waitUntilFreeOnHost (JInt 44205) (JStr ''127.0.0.1'') JUndefined JUndefined)
     = JInt RETRYTIME
   \<and> retryTimeMs (waitUntilFreeOnHost (JInt 44205) (JStr ''127.0.0.1'') JUndefined JUndefined)
     = JUndefined
   \<and> timers (waitUntilFreeOnHost (JInt 44205) (JStr ''127.0.0.1'') JUndefined JUndefined)
     = [(1, TimeoutFunc, JInt 200)]
   \<and> utimeOutMs (p3_waitUntilUsed (JInt 44204) JUndefined (JInt 4000)) = JInt 100
   \<and> uretryTimeMs (p3_waitUntilUsed (JInt 44204) JUndefined (JInt 4000)) = JUndefined"
  by (simp add: waitUntilFreeOnHost_def new_session_def arm_deadline_def setTimeout_def
      doCheck_def Let_def RETRYTIME_def p3_waitUntilUsed_def)
section \<open>Properties of the bind-based probes\<close>

lemmas bind_defs = srv_emit_def srv_take_def bind_upd_def q_resolve_def q_reject_def

lemma index_bind_failed:
  "\<not> index_guard port \<Longrightarrow>
   bdeferred (index_emit (BindFailed err) (index_check port))
     = (if code err = Some ''EADDRINUSE'' then Fulfilled True else Rejected err)"
  by (simp add: index_emit_def index_check_def index_onError_def bind_defs)

lemma index_bound:
  "\<not> index_guard port \<Longrightarrow>
   bdeferred (index_emit Bound (index_check port)) = Pending
   \<and> phase (server (index_emit Bound (index_check port))) = Closing"
  by (simp add: index_emit_def index_check_def index_onListening_def bind_defs)

lemma index_closed:
  "\<not> index_guard port \<Longrightarrow>
   bdeferred (index_emit CloseDone (index_emit Bound (index_check port))) = Fulfilled False
   \<and> phase (server (index_emit CloseDone (index_emit Bound (index_check port)))) = Closed"
  by (simp add: index_emit_def index_check_def index_onListening_def index_onClose_def bind_defs)

lemma p3_bind_failed:
  "is_port port \<Longrightarrow>
   bdeferred (p3_emit (BindFailed err) (p3_check port))
     = (if code err = Some ''EADDRINUSE'' then Fulfilled True else Rejected err)"
  by (simp add: p3_emit_def p3_check_def p3_onError_def p3_cleanup_def bind_defs)

lemma p3_bound:
  "is_port port \<Longrightarrow>
   bdeferred (p3_emit Bound (p3_check port)) = Pending
   \<and> phase (server (p3_emit Bound (p3_check port))) = Closing"
  by (simp add: p3_emit_def p3_check_def p3_onListening_def bind_defs)

lemma p3_closed:
  "is_port port \<Longrightarrow>
   bdeferred (p3_emit CloseDone (p3_emit Bound (p3_check port))) = Fulfilled False
   \<and> phase (server (p3_emit CloseDone (p3_emit Bound (p3_check port)))) = Closed"
  by (simp add: p3_emit_def p3_check_def p3_onListening_def p3_onClose_def p3_cleanup_def
      bind_defs Let_def)

text \<open>
  C8, as stated, fails for \<^verbatim>\<open>check\<close> of \<^verbatim>\<open>src/index.js\<close> at port 0, a port in the range
  0 to 65535: its guard asks for a positive integer, so the promise is rejected by the
  guard, and the bind that succeeds afterwards, with the close of the socket, cannot
  report free any more.
\<close>

theorem bind_probe_port_zero:
  "is_port (JInt 0)
   \<and> phase (server (index_emit CloseDone (index_emit Bound (index_check (JInt 0))))) = Closed
   \<and> bdeferred (index_emit CloseDone (index_emit Bound (index_check (JInt 0))))
       = Rejected (new_Error ''Invalid port: 0'')"
  by (simp add: index_emit_def index_check_def index_guard_def index_onListening_def
      index_onClose_def bind_defs number_text_def digit_char_def)

text \<open>
  C8, amended. For a port the probe's own guard lets through (\<^verbatim>\<open>src/index.js\<close>: a
  positive integer not above 65535; \<^verbatim>\<open>part_003\<close>: an integer from 0 to 65535): a bind
  that fails with the address-in-use code gives in-use (\<open>True\<close>); any other bind failure
  gives that error; when the bind succeeds the probe asks for the close of the socket
  and the promise stays pending, and it is fulfilled with free (\<open>False\<close>) by the
  \<^verbatim>\<open>close\<close> event, when the socket is closed.
\<close>

theorem bind_probe_outcomes:
  "(\<not> index_guard port \<longrightarrow>
      bdeferred (index_emit (BindFailed err) (index_check port))
        = (if code err = Some ''EADDRINUSE'' then Fulfilled True else Rejected err)
      \<and> bdeferred (index_emit Bound (index_check port)) = Pending
      \<and> phase (server (index_emit Bound (index_check port))) = Closing
      \<and> bdeferred (index_emit CloseDone (index_emit Bound (index_check port))) = Fulfilled False
      \<and> phase (server (index_emit CloseDone (index_emit Bound (index_check port)))) = Closed)
   \<and> (is_port port \<longrightarrow>
      bdeferred (p3_emit (BindFailed err) (p3_check port))
        = (if code err = Some ''EADDRINUSE'' then Fulfilled True else Rejected err)
      \<and> bdeferred (p3_emit Bound (p3_check port)) = Pending
      \<and> phase (server (p3_emit Bound (p3_check port))) = Closing
      \<and> bdeferred (p3_emit CloseDone (p3_emit Bound (p3_check port))) = Fulfilled False
      \<and> phase (server (p3_emit CloseDone (p3_emit Bound (p3_check port)))) = Closed)"
  using index_bind_failed [of port err] index_bound [of port] index_closed [of port]
    p3_bind_failed [of port err] p3_bound [of port] p3_closed [of port]
  by blast

theorem bind_probe_outcomes_witness:
  "\<not> index_guard (JInt 44202) \<and> is_port (JInt 44202)
   \<and> bdeferred (index_emit (BindFailed \<lparr>message = ''listen EADDRINUSE'', code = Some ''EADDRINUSE''\<rparr>)
        (index_check (JInt 44202))) = Fulfilled True
   \<and> bdeferred (p3_emit (BindFailed \<lparr>message = ''listen EACCES'', code = Some ''EACCES''\<rparr>)
        (p3_check (JInt 44202))) = Rejected \<lparr>message = ''listen EACCES'', code = Some ''EACCES''\<rparr>
   \<and> bdeferred (index_emit CloseDone (index_emit Bound (index_check (JInt 44202)))) = Fulfilled False
   \<and> bdeferred (p3_emit CloseDone (p3_emit Bound (p3_check (JInt 44202)))) = Fulfilled False"
proof -
  have g: "\<not> index_guard (JInt 44202)" by (simp add: index_guard_def)
  have p: "is_port (JInt 44202)" by simp
  from bind_probe_outcomes [of "JInt 44202" "\<lparr>message = ''listen EADDRINUSE'', code = Some ''EADDRINUSE''\<rparr>"]
       bind_probe_outcomes [of "JInt 44202" "\<lparr>message = ''listen EACCES'', code = Some ''EACCES''\<rparr>"]
       g p
  show ?thesis by simp
qed

section \<open>The deadline\<close>

lemma deadline_fires:
  assumes "session_inv s" "timeoutId s = Some ti" "ti \<in> set (map fst (timers s))"
  shows "expired (fire ti s) \<and> settle_calls s = 0"
proof -
  from assms consider "probing s" | "waiting s"
    by (auto simp: session_inv_def expired_def finished_def)
  then show ?thesis
  proof cases
    case 1
    with assms(2) show ?thesis
      by (simp add: probing_def expired_def fire_def q_reject_def)
  next
    case 2
    with assms(2) show ?thesis
      by (auto simp: waiting_def expired_def fire_def q_reject_def split: option.splits)
  qed
qed

lemma timeout_not_validation: "new_Error ''timeout'' \<noteq> new_Error (''invalid port: '' @ v)"
  by (simp add: new_Error_def)

lemma timeout_not_probe_error: "code e \<noteq> None \<Longrightarrow> e \<noteq> new_Error ''timeout''"
  by (auto simp: new_Error_def)

lemma p3_deadline_only_flags:
  "fdeferred (p3_free_step Deadline s) = fdeferred s
   \<and> (ftimeout_armed s \<longrightarrow> fdone (p3_free_step Deadline s))"
  by (simp add: p3_free_deadline_def)

lemma p3_tick_settles:
  "finterval_armed s \<Longrightarrow> fdone s \<Longrightarrow> fdeferred s = Pending \<Longrightarrow>
   fdeferred (p3_free_step Tick s)
     = Rejected (new_Error (''waitUntilFree: timeout after '' @ to_string (ftimeOutMs s) @ '' ms.''))"
  by (simp add: p3_free_tick_def p3_free_upd_def q_reject_def Let_def)

text \<open>
  C2, as stated, fails for \<^verbatim>\<open>waitUntilFree\<close> of \<^verbatim>\<open>part_003\<close>, here at port 44203,
  retry interval 500 and timeout 4000: when the deadline timer fires the flag \<^verbatim>\<open>done\<close>
  is set and the promise is still pending; it is the next tick of the interval that
  rejects it.
\<close>

theorem deadline_deferred_to_tick:
  "is_port (JInt 44203)
   \<and> fdone (p3_free_step Deadline (p3_waitUntilFree (JInt 44203) (JInt 500) (JInt 4000)))
   \<and> fdeferred (p3_free_step Deadline (p3_waitUntilFree (JInt 44203) (JInt 500) (JInt 4000)))
       = Pending
   \<and> fdeferred (p3_free_step Tick (p3_free_step Deadline
         (p3_waitUntilFree (JInt 44203) (JInt 500) (JInt 4000))))
       = Rejected (new_Error ''waitUntilFree: timeout after 4000 ms.'')"
  by (simp add: p3_waitUntilFree_def p3_free_deadline_def p3_free_tick_def p3_free_upd_def
      q_reject_def Let_def number_text_def digit_char_def)

text \<open>
  C2, amended. In a session of \<^verbatim>\<open>part_002\<close> (\<^verbatim>\<open>waitUntilFreeOnHost\<close>,
  \<^verbatim>\<open>waitUntilUsedOnHost\<close> and the no-host wrappers), after any sequence of events: when
  the deadline timer is still armed and fires, the session was not settled before, and
  the firing itself marks the session timed out, leaves no timer armed (a pending retry
  timer is cancelled) and rejects the promise with the error \<^verbatim>\<open>timeout\<close>, the one call of
  \<^verbatim>\<open>reject\<close>. That error differs from every validation error and from every error that
  carries a code, as the errors of a socket do. In \<^verbatim>\<open>waitUntilFree\<close> of \<^verbatim>\<open>part_003\<close> the
  deadline timer leaves the promise as it is; once the flag is set, the next tick of the
  interval rejects a pending promise with the timeout message.
\<close>

theorem deadline_settles:
  assumes "s0 = waitUntilFreeOnHost p h r t \<or> s0 = waitUntilUsedOnHost p h r t
           \<or> s0 = waitUntilFree p r t \<or> s0 = waitUntilUsed p r t"
  shows "(timeoutId (run es s0) = Some ti \<and> ti \<in> set (map fst (timers (run es s0))) \<longrightarrow>
            settle_calls (run es s0) = 0
          \<and> timedout (step (TimerFires ti) (run es s0))
          \<and> timers (step (TimerFires ti) (run es s0)) = []
          \<and> wdeferred (step (TimerFires ti) (run es s0)) = Rejected (new_Error ''timeout'')
          \<and> settle_calls (step (TimerFires ti) (run es s0)) = 1)
     \<and> new_Error ''timeout'' \<noteq> new_Error (''invalid port: '' @ inspect v)
     \<and> (code e \<noteq> None \<longrightarrow> e \<noteq> new_Error ''timeout'')
     \<and> fdeferred (p3_free_step Deadline f) = fdeferred f
     \<and> (finterval_armed f \<and> fdone f \<and> fdeferred f = Pending \<longrightarrow>
          fdeferred (p3_free_step Tick f)
            = Rejected (new_Error (''waitUntilFree: timeout after '' @ to_string (ftimeOutMs f) @ '' ms.'')))"
proof -
  let ?s = "run es s0"
  have inv: "session_inv ?s" by (rule session_inv_run [OF start_inv [OF assms]])
  have a: "timeoutId ?s = Some ti \<and> ti \<in> set (map fst (timers ?s)) \<longrightarrow>
            settle_calls ?s = 0
          \<and> timedout (step (TimerFires ti) ?s)
          \<and> timers (step (TimerFires ti) ?s) = []
          \<and> wdeferred (step (TimerFires ti) ?s) = Rejected (new_Error ''timeout'')
          \<and> settle_calls (step (TimerFires ti) ?s) = 1"
  proof
    assume h: "timeoutId ?s = Some ti \<and> ti \<in> set (map fst (timers ?s))"
    then have "expired (fire ti ?s) \<and> settle_calls ?s = 0"
      using deadline_fires [OF inv] by blast
    then show "settle_calls ?s = 0
          \<and> timedout (step (TimerFires ti) ?s)
          \<and> timers (step (TimerFires ti) ?s) = []
          \<and> wdeferred (step (TimerFires ti) ?s) = Rejected (new_Error ''timeout'')
          \<and> settle_calls (step (TimerFires ti) ?s) = 1"
      by (simp add: expired_def)
  qed
  have b: "fdeferred (p3_free_step Deadline f) = fdeferred f"
    using p3_deadline_only_flags [of f] by blast
  have c: "finterval_armed f \<and> fdone f \<and> fdeferred f = Pending \<longrightarrow>
          fdeferred (p3_free_step Tick f)
            = Rejected (new_Error (''waitUntilFree: timeout after '' @ to_string (ftimeOutMs f) @ '' ms.''))"
    using p3_tick_settles [of f] by blast
  from a b c timeout_not_validation [of "inspect v"] timeout_not_probe_error [of e]
  show ?thesis by blast
qed


theorem deadline_settles_witness:
  "timeoutId (run [ProbeSettles 0 (Failed \<lparr>message = ''connect ECONNREFUSED'', code = Some ''ECONNREFUSED''\<rparr>)]
       (waitUntilUsedOnHost (JInt 44205) (JStr ''127.0.0.1'') (JInt 500) (JInt 2000))) = Some 1
   \<and> map fst (timers (run [ProbeSettles 0 (Failed \<lparr>message = ''connect ECONNREFUSED'', code = Some ''ECONNREFUSED''\<rparr>)]
       (waitUntilUsedOnHost (JInt 44205) (JStr ''127.0.0.1'') (JInt 500) (JInt 2000)))) = [1, 2]
   \<and> timers (step (TimerFires 1)
       (run [ProbeSettles 0 (Failed \<lparr>message = ''connect ECONNREFUSED'', code = Some ''ECONNREFUSED''\<rparr>)]
         (waitUntilUsedOnHost (JInt 44205) (JStr ''127.0.0.1'') (JInt 500) (JInt 2000)))) = []
   \<and> wdeferred (step (TimerFires 1)
       (run [ProbeSettles 0 (Failed \<lparr>message = ''connect ECONNREFUSED'', code = Some ''ECONNREFUSED''\<rparr>)]
         (waitUntilUsedOnHost (JInt 44205) (JStr ''127.0.0.1'') (JInt 500) (JInt 2000))))
       = Rejected (new_Error ''timeout'')
   \<and> settle_calls (step (TimerFires 1)
       (run [ProbeSettles 0 (Failed \<lparr>message = ''connect ECONNREFUSED'', code = Some ''ECONNREFUSED''\<rparr>)]
         (waitUntilUsedOnHost (JInt 44205) (JStr ''127.0.0.1'') (JInt 500) (JInt 2000)))) = 1
   \<and> \<lparr>message = ''connect EHOSTUNREACH'', code = Some ''EHOSTUNREACH''\<rparr> \<noteq> new_Error ''timeout''
   \<and> fdeferred (p3_free_step Tick (p3_free_step Deadline
         (p3_waitUntilFree (JInt 44203) (JInt 500) (JInt 4000))))
       = Rejected (new_Error ''waitUntilFree: timeout after 4000 ms.'')"
proof -
  let ?s0 = "waitUntilUsedOnHost (JInt 44205) (JStr ''127.0.0.1'') (JInt 500) (JInt 2000)"
  let ?es = "[ProbeSettles 0 (Failed \<lparr>message = ''connect ECONNREFUSED'', code = Some ''ECONNREFUSED''\<rparr>)]"
  let ?e = "\<lparr>message = ''connect EHOSTUNREACH'', code = Some ''EHOSTUNREACH''\<rparr>"
  let ?f = "p3_free_step Deadline (p3_waitUntilFree (JInt 44203) (JInt 500) (JInt 4000))"
  have s: "?s0 = waitUntilFreeOnHost (JInt 44205) (JStr ''127.0.0.1'') (JInt 500) (JInt 2000)
           \<or> ?s0 = waitUntilUsedOnHost (JInt 44205) (JStr ''127.0.0.1'') (JInt 500) (JInt 2000)
           \<or> ?s0 = waitUntilFree (JInt 44205) (JInt 500) (JInt 2000)
           \<or> ?s0 = waitUntilUsed (JInt 44205) (JInt 500) (JInt 2000)" by simp
  have a: "timeoutId (run ?es ?s0) = Some 1" by (simp add: run_defs)
  have b: "map fst (timers (run ?es ?s0)) = [1, 2]" by (simp add: run_defs)
  have b': "1 \<in> set (map fst (timers (run ?es ?s0)))" unfolding b by simp
  have c: "code ?e \<noteq> None" by simp
  have d: "finterval_armed ?f \<and> fdone ?f \<and> fdeferred ?f = Pending"
    by (simp add: p3_waitUntilFree_def p3_free_deadline_def Let_def)
  have t: "to_string (ftimeOutMs ?f) = ''4000''"
    by (simp add: p3_waitUntilFree_def p3_free_deadline_def Let_def number_text_def digit_char_def)
  note inst = deadline_settles [OF s, of ?es 1 "JStr ''hello''" ?e ?f]
  from inst a b' have g: "timers (step (TimerFires 1) (run ?es ?s0)) = []"
    "wdeferred (step (TimerFires 1) (run ?es ?s0)) = Rejected (new_Error ''timeout'')"
    "settle_calls (step (TimerFires 1) (run ?es ?s0)) = 1" by blast+
  from inst c have h: "?e \<noteq> new_Error ''timeout''" by blast
  from inst d have "fdeferred (p3_free_step Tick ?f)
     = Rejected (new_Error (''waitUntilFree: timeout after '' @ to_string (ftimeOutMs ?f) @ '' ms.''))"
    by blast
  then have i: "fdeferred (p3_free_step Tick ?f)
     = Rejected (new_Error ''waitUntilFree: timeout after 4000 ms.'')"
    unfolding t by simp
  from a b g h i show ?thesis by (simp only: simp_thms)
qed
section \<open>One probe at a time\<close>

lemma inv_inflight:
  "session_inv s \<Longrightarrow>
   length (inflight s) \<le> 1
   \<and> (list_ex (\<lambda>x. fst (snd x) = RetryFunc) (timers s) \<longrightarrow> inflight s = [])"
  by (auto simp: session_inv_def probing_def waiting_def expired_def finished_def
      split: option.splits)

lemma p3_used_tick_adds:
  "uinterval_armed u \<Longrightarrow>
   length (filter outstanding (uclients (p3_used_step UTick u)))
     = Suc (length (filter outstanding (uclients u)))"
  by (simp add: p3_used_tick_def p3_used_timers_off_def outstanding_def Let_def)

text \<open>
  C6, as stated, fails for \<^verbatim>\<open>waitUntilUsed\<close> of \<^verbatim>\<open>part_003\<close>, here at port 44204, retry
  interval 500 and timeout 4000: after two ticks of the interval, with no answer from the
  first socket, two probes are outstanding.
\<close>

theorem probes_pile_up:
  "is_port (JInt 44204)
   \<and> length (filter outstanding (uclients (p3_used_step UTick (p3_used_step UTick
        (p3_waitUntilUsed (JInt 44204) (JInt 500) (JInt 4000)))))) = 2"
  by (simp add: p3_waitUntilUsed_def p3_used_tick_def outstanding_def Let_def)

text \<open>
  C6, amended. In a session of \<^verbatim>\<open>part_002\<close>, after any sequence of events: at most one
  call of \<^verbatim>\<open>check\<close> is in flight; while the retry timer is armed none is; and an event
  that puts a probe in flight finds none in flight. In \<^verbatim>\<open>waitUntilUsed\<close> of \<^verbatim>\<open>part_003\<close>
  every tick of the armed interval adds one outstanding probe to those that have not
  answered yet.
\<close>

theorem probes_sequential:
  assumes "s0 = waitUntilFreeOnHost p h r t \<or> s0 = waitUntilUsedOnHost p h r t
           \<or> s0 = waitUntilFree p r t \<or> s0 = waitUntilUsed p r t"
  shows "length (inflight (run es s0)) \<le> 1
     \<and> (list_ex (\<lambda>x. fst (snd x) = RetryFunc) (timers (run es s0)) \<longrightarrow> inflight (run es s0) = [])
     \<and> (length (inflight (run es s0)) < length (inflight (step e (run es s0))) \<longrightarrow>
          inflight (run es s0) = [])
     \<and> (uinterval_armed u \<longrightarrow>
          length (filter outstanding (uclients (p3_used_step UTick u)))
            = Suc (length (filter outstanding (uclients u))))"
proof -
  let ?s = "run es s0"
  have inv: "session_inv ?s" by (rule session_inv_run [OF start_inv [OF assms]])
  have inv': "session_inv (step e ?s)" by (rule session_inv_step [OF inv])
  from inv_inflight [OF inv] have a: "length (inflight ?s) \<le> 1"
    and b: "list_ex (\<lambda>x. fst (snd x) = RetryFunc) (timers ?s) \<longrightarrow> inflight ?s = []"
    by blast+
  from inv_inflight [OF inv'] have le: "length (inflight (step e ?s)) \<le> 1" by blast
  have c: "length (inflight ?s) < length (inflight (step e ?s)) \<longrightarrow> inflight ?s = []"
  proof
    assume "length (inflight ?s) < length (inflight (step e ?s))"
    with le have "length (inflight ?s) = 0" by linarith
    then show "inflight ?s = []" by (simp only: length_0_conv)
  qed
  have d: "uinterval_armed u \<longrightarrow>
          length (filter outstanding (uclients (p3_used_step UTick u)))
            = Suc (length (filter outstanding (uclients u)))"
    using p3_used_tick_adds [of u] by blast
  from a b c d show ?thesis by blast
qed

theorem probes_sequential_witness:
  "length (inflight (run [ProbeSettles 0 Connected, TimerFires 2]
       (waitUntilFreeOnHost (JInt 44203) (JStr ''127.0.0.1'') (JInt 500) (JInt 4000)))) = 1
   \<and> list_ex (\<lambda>x. fst (snd x) = RetryFunc) (timers (run [ProbeSettles 0 Connected]
       (waitUntilFreeOnHost (JInt 44203) (JStr ''127.0.0.1'') (JInt 500) (JInt 4000))))
   \<and> inflight (run [ProbeSettles 0 Connected]
       (waitUntilFreeOnHost (JInt 44203) (JStr ''127.0.0.1'') (JInt 500) (JInt 4000))) = []
   \<and> length (filter outstanding (uclients (p3_used_step UTick
        (p3_waitUntilUsed (JInt 44204) (JInt 500) (JInt 4000))))) = 1"
proof -
  let ?s0 = "waitUntilFreeOnHost (JInt 44203) (JStr ''127.0.0.1'') (JInt 500) (JInt 4000)"
  let ?u = "p3_waitUntilUsed (JInt 44204) (JInt 500) (JInt 4000)"
  have s: "?s0 = waitUntilFreeOnHost (JInt 44203) (JStr ''127.0.0.1'') (JInt 500) (JInt 4000)
           \<or> ?s0 = waitUntilUsedOnHost (JInt 44203) (JStr ''127.0.0.1'') (JInt 500) (JInt 4000)
           \<or> ?s0 = waitUntilFree (JInt 44203) (JInt 500) (JInt 4000)
           \<or> ?s0 = waitUntilUsed (JInt 44203) (JInt 500) (JInt 4000)" by simp
  have a: "length (inflight (run [ProbeSettles 0 Connected, TimerFires 2] ?s0)) = 1"
    by (simp add: run_defs)
  have b: "list_ex (\<lambda>x. fst (snd x) = RetryFunc) (timers (run [ProbeSettles 0 Connected] ?s0))"
    by (simp add: run_defs)
  have u: "uinterval_armed ?u" "length (filter outstanding (uclients ?u)) = 0"
    by (simp_all add: p3_waitUntilUsed_def Let_def)
  note inst = probes_sequential [OF s, of "[ProbeSettles 0 Connected]" "TimerFires 2" ?u]
  from inst b have c: "inflight (run [ProbeSettles 0 Connected] ?s0) = []" by blast
  from inst u(1) have "length (filter outstanding (uclients (p3_used_step UTick ?u)))
            = Suc (length (filter outstanding (uclients ?u)))" by blast
  then have d: "length (filter outstanding (uclients (p3_used_step UTick ?u))) = 1"
    unfolding u(2) by simp
  from a b c d show ?thesis by (simp only: simp_thms)
qed

section \<open>The probe of the no-host variants\<close>

lemma step_args: "port_arg (step e s) = port_arg s \<and> host_arg (step e s) = host_arg s"
  by (cases e)
     (simp_all add: fire_def settle_probe_def deliver_def free_then_def used_then_def
        check_failed_def Let_def
        split: option.splits timer_cb.splits promise.splits wait_mode.splits prod.splits)

lemma run_args: "port_arg (run es s) = port_arg s \<and> host_arg (run es s) = host_arg s"
  by (induction es arbitrary: s) (simp_all add: step_args)

lemma check_io_valid:
  "is_port p \<Longrightarrow> is_hostAddress h \<Longrightarrow> check_io (check p h) = [SocketConnect p h]"
  by (simp add: check_io_def check_def)

lemma opened_step:
  "is_port (port_arg s) \<Longrightarrow> is_hostAddress (host_arg s) \<Longrightarrow>
   set (opened (step e s)) \<subseteq> insert (SocketConnect (port_arg s) (host_arg s)) (set (opened s))"
  by (cases e)
     (auto simp: fire_def settle_probe_def deliver_def free_then_def used_then_def
        check_failed_def Let_def check_io_valid
        split: option.splits timer_cb.splits promise.splits wait_mode.splits prod.splits)

lemma opened_run:
  "is_port (port_arg s) \<Longrightarrow> is_hostAddress (host_arg s) \<Longrightarrow>
   set (opened (run es s)) \<subseteq> insert (SocketConnect (port_arg s) (host_arg s)) (set (opened s))"
proof (induction es arbitrary: s)
  case Nil
  then show ?case by auto
next
  case (Cons e es)
  from Cons.prems step_args [of e s]
  have "set (opened (run es (step e s)))
          \<subseteq> insert (SocketConnect (port_arg s) (host_arg s)) (set (opened (step e s)))"
    using Cons.IH [of "step e s"] by simp
  with opened_step [OF Cons.prems, of e] show ?case by auto
qed

lemma inv_inflight_probe:
  "session_inv s \<Longrightarrow> \<forall>c \<in> set (inflight s). c = check (port_arg s) (host_arg s)"
  by (auto simp: session_inv_def probing_def waiting_def expired_def finished_def)

lemma finished_run: "finished s \<Longrightarrow> run es s = s"
  by (induction es) (simp_all add: finished_step)

lemma start_free_fields:
  "is_port p \<Longrightarrow>
   port_arg (waitUntilFreeOnHost p h r t) = p
   \<and> host_arg (waitUntilFreeOnHost p h r t) = (if \<not> is_hostAddress h then loopback else h)
   \<and> opened (waitUntilFreeOnHost p h r t)
       = [SocketConnect p (if \<not> is_hostAddress h then loopback else h)]
   \<and> inflight (waitUntilFreeOnHost p h r t)
       = [check p (if \<not> is_hostAddress h then loopback else h)]"
  by (simp add: waitUntilFreeOnHost_def new_session_def arm_deadline_def setTimeout_def
      Let_def check_io_valid loopback_def)

lemma start_used_fields:
  "is_port p \<Longrightarrow>
   port_arg (waitUntilUsedOnHost p h r t) = p
   \<and> host_arg (waitUntilUsedOnHost p h r t) = (if \<not> is_hostAddress h then loopback else h)
   \<and> opened (waitUntilUsedOnHost p h r t)
       = [SocketConnect p (if \<not> is_hostAddress h then loopback else h)]
   \<and> inflight (waitUntilUsedOnHost p h r t)
       = [check p (if \<not> is_hostAddress h then loopback else h)]"
  by (simp add: waitUntilUsedOnHost_def new_session_def arm_deadline_def setTimeout_def
      Let_def check_io_valid loopback_def)

lemma start_invalid_opened:
  "\<not> is_port p \<Longrightarrow>
   opened (waitUntilFreeOnHost p h r t) = [] \<and> opened (waitUntilUsedOnHost p h r t) = []"
  by (simp add: waitUntilFreeOnHost_def waitUntilUsedOnHost_def new_session_def w_reject_def)

lemma wrapper_probes:
  assumes "s0 = waitUntilFreeOnHost p (JStr ''127.0.0.1'') r t
           \<or> s0 = waitUntilUsedOnHost p (JStr ''127.0.0.1'') r t"
  shows "(\<forall>a \<in> set (opened (run es s0)). a = SocketConnect p (JStr ''127.0.0.1''))
       \<and> (\<forall>c \<in> set (inflight (run es s0)). c = check p (JStr ''127.0.0.1''))"
proof (cases "is_port p")
  case True
  from assms True have f: "port_arg s0 = p" "host_arg s0 = JStr ''127.0.0.1''"
    "opened s0 = [SocketConnect p (JStr ''127.0.0.1'')]"
    using start_free_fields [OF True, of "JStr ''127.0.0.1''" r t]
      start_used_fields [OF True, of "JStr ''127.0.0.1''" r t]
    by auto
  have h: "is_hostAddress (host_arg s0)" by (simp add: f)
  from True f have pp: "is_port (port_arg s0)" by simp
  from opened_run [OF pp h, of es] f
  have a: "\<forall>a \<in> set (opened (run es s0)). a = SocketConnect p (JStr ''127.0.0.1'')" by auto
  from assms have "session_inv s0" using start_inv [of s0 p "JStr ''127.0.0.1''" r t] by blast
  then have "session_inv (run es s0)" by (rule session_inv_run)
  from inv_inflight_probe [OF this] run_args [of es s0] f
  have b: "\<forall>c \<in> set (inflight (run es s0)). c = check p (JStr ''127.0.0.1'')" by simp
  from a b show ?thesis by blast
next
  case False
  with assms have fin: "finished s0" using start_free_invalid start_used_invalid by blast
  from False assms have "opened s0 = []" using start_invalid_opened by blast
  with fin show ?thesis by (simp add: finished_run finished_def)
qed

text \<open>
  C9, as stated, fails: \<^verbatim>\<open>waitUntilFree(44203, 500, 4000)\<close> and
  \<^verbatim>\<open>waitUntilUsed(44204, 500, 4000)\<close> of \<^verbatim>\<open>part_002\<close> open a client socket that connects
  to 127.0.0.1; no server socket listens on the port.
\<close>

theorem no_host_variant_connects:
  "opened (waitUntilFree (JInt 44203) (JInt 500) (JInt 4000))
     = [SocketConnect (JInt 44203) (JStr ''127.0.0.1'')]
   \<and> opened (waitUntilUsed (JInt 44204) (JInt 500) (JInt 4000))
     = [SocketConnect (JInt 44204) (JStr ''127.0.0.1'')]
   \<and> ServerListen (JInt 44203) \<notin> set (opened (waitUntilFree (JInt 44203) (JInt 500) (JInt 4000)))
   \<and> ServerListen (JInt 44204) \<notin> set (opened (waitUntilUsed (JInt 44204) (JInt 500) (JInt 4000)))"
  by (simp add: run_defs)

text \<open>
  C9, amended. The no-host variants \<^verbatim>\<open>waitUntilFree\<close> and \<^verbatim>\<open>waitUntilUsed\<close> of
  \<^verbatim>\<open>part_002\<close> are the host-aware operations at the host 127.0.0.1: after any sequence of
  events every socket the session has opened is a client socket connecting to that host
  and the given port, and every probe in flight is the connect-based \<^verbatim>\<open>check\<close> on them.
\<close>

theorem no_host_variants_delegate:
  "waitUntilFree p r t = waitUntilFreeOnHost p (JStr ''127.0.0.1'') r t
   \<and> waitUntilUsed p r t = waitUntilUsedOnHost p (JStr ''127.0.0.1'') r t
   \<and> (\<forall>a \<in> set (opened (run es (waitUntilFree p r t))). a = SocketConnect p (JStr ''127.0.0.1''))
   \<and> (\<forall>c \<in> set (inflight (run es (waitUntilFree p r t))). c = check p (JStr ''127.0.0.1''))
   \<and> (\<forall>a \<in> set (opened (run es (waitUntilUsed p r t))). a = SocketConnect p (JStr ''127.0.0.1''))
   \<and> (\<forall>c \<in> set (inflight (run es (waitUntilUsed p r t))). c = check p (JStr ''127.0.0.1''))"
  using wrapper_probes [of "waitUntilFree p r t" p r t es]
    wrapper_probes [of "waitUntilUsed p r t" p r t es]
  by (simp add: start_wrappers)

theorem no_host_variants_delegate_witness:
  "opened (run [ProbeSettles 0 Connected, TimerFires 2]
      (waitUntilFree (JInt 44203) (JInt 500) (JInt 4000)))
     = [SocketConnect (JInt 44203) (JStr ''127.0.0.1''), SocketConnect (JInt 44203) (JStr ''127.0.0.1'')]
   \<and> inflight (run [ProbeSettles 0 Connected, TimerFires 2]
      (waitUntilFree (JInt 44203) (JInt 500) (JInt 4000)))
     = [check (JInt 44203) (JStr ''127.0.0.1'')]
   \<and> ServerListen (JInt 44203) \<notin> set (opened (run [ProbeSettles 0 Connected, TimerFires 2]
      (waitUntilFree (JInt 44203) (JInt 500) (JInt 4000))))
   \<and> waitUntilUsed (JInt 44203) (JInt 500) (JInt 4000)
     = waitUntilUsedOnHost (JInt 44203) (JStr ''127.0.0.1'') (JInt 500) (JInt 4000)"
proof -
  let ?es = "[ProbeSettles 0 Connected, TimerFires 2]"
  let ?s = "run ?es (waitUntilFree (JInt 44203) (JInt 500) (JInt 4000))"
  note inst = no_host_variants_delegate [of "JInt 44203" "JInt 500" "JInt 4000" ?es]
  have a: "opened ?s
     = [SocketConnect (JInt 44203) (JStr ''127.0.0.1''), SocketConnect (JInt 44203) (JStr ''127.0.0.1'')]"
    by (simp add: run_defs)
  have b: "inflight ?s = [check (JInt 44203) (JStr ''127.0.0.1'')]"
    by (simp add: run_defs)
  from inst have "\<forall>a \<in> set (opened ?s). a = SocketConnect (JInt 44203) (JStr ''127.0.0.1'')"
    by blast
  then have c: "ServerListen (JInt 44203) \<notin> set (opened ?s)" by blast
  from inst have d: "waitUntilUsed (JInt 44203) (JInt 500) (JInt 4000)
     = waitUntilUsedOnHost (JInt 44203) (JStr ''127.0.0.1'') (JInt 500) (JInt 4000)" by blast
  from a b c d show ?thesis by (simp only: simp_thms)
qed

section \<open>Returning instead of throwing\<close>















end
